theory Spec2Isabelle
  imports Main
begin

section \<open>The ranking table and the request options\<close>

text \<open>
  Source: \<^verbatim>\<open>src/project/gamestats_database.py\<close>, the Gamestats2 part (table
  \<^verbatim>\<open>ranking\<close> and the \<^verbatim>\<open>web_get2\<close> family).

  A row of \<^verbatim>\<open>ranking (gamename TEXT, pid INT, region INT, category INT, score INT,
  data TEXT, updated DATETIME)\<close> is a record. Python integers are unbounded, so the
  integer columns are \<open>int\<close>; an integer the store holds, or is sent as a parameter, is
  an SQLite \<^verbatim>\<open>INTEGER\<close> of 64 bits (\<open>int64\<close> below), and the store's arithmetic on
  them is modelled with its overflow. A \<^verbatim>\<open>datetime\<close> is the number of microseconds
  since \<^verbatim>\<open>datetime(1970, 1, 1)\<close>, between \<open>datetime_min\<close> (year 1) and \<open>datetime_max\<close>
  (year 9999); the store compares the ISO texts of two datetimes, which orders them
  as the numbers are ordered.

  The table is the list of its rows in the order of the unique index
  \<^verbatim>\<open>(gamename, pid, region, category)\<close>: every statement of the module fixes
  \<^verbatim>\<open>gamename\<close>, and the store visits the rows in that order, not in the order of
  insertion. The store is taken to answer every statement it is sent (no failure of
  the connection).
\<close>

type_synonym timestamp = int

definition datetime_min :: timestamp where
  "datetime_min = - 62135596800000000"

definition datetime_max :: timestamp where
  "datetime_max = 253402300799999999"

definition int64 :: "int \<Rightarrow> bool" where
  "int64 n = (- 9223372036854775808 \<le> n \<and> n \<le> 9223372036854775807)"

record ranking_row =
  gamename :: string
  pid :: int
  region :: int
  category :: int
  score :: int
  data :: string
  updated :: timestamp

text \<open>
  The \<^verbatim>\<open>data\<close> dictionary of a request. A key that is absent is \<open>None\<close>. The keys the
  code never reads are the extension part of the record, so a function over
  \<open>'a options_scheme\<close> carries them along.
\<close>

record options =
  o_updated :: "int option"
  o_limit :: "int option"
  o_filter :: "int option"
  o_friends :: "int list option"
  o_since :: "timestamp option"

text \<open>
  What a call can raise: \<^verbatim>\<open>ValueError\<close> with the mode, \<^verbatim>\<open>KeyError\<close> with the key,
  \<^verbatim>\<open>OverflowError\<close> from the arithmetic on datetimes, and \<^verbatim>\<open>sqlite3.OperationalError\<close>
  with the store's message.
\<close>

datatype error = ValueError int | KeyError string | OverflowError | OperationalError string

section \<open>The statements sent to the store\<close>

text \<open>
  Every statement of the module is a \<^verbatim>\<open>SELECT\<close> over \<^verbatim>\<open>ranking\<close> whose
  \<^verbatim>\<open>WHERE\<close> clause is a conjunction of the terms below, with the bound parameter in
  place of each \<^verbatim>\<open>?\<close>:
  \<^verbatim>\<open>gamename = ?\<close>, \<^verbatim>\<open>region & ?\<close>, \<^verbatim>\<open>region = ?\<close>, \<^verbatim>\<open>category = ?\<close>, \<^verbatim>\<open>pid = ?\<close>,
  \<^verbatim>\<open>pid != ?\<close>, \<^verbatim>\<open>pid IN (...)\<close>, \<^verbatim>\<open>updated >= ?\<close>, \<^verbatim>\<open>(score - ?) >= 0\<close>,
  \<^verbatim>\<open>(score - ?) <= 0\<close>.
\<close>

datatype cond =
    Gamename_eq string
  | Region_bitand int
  | Region_eq int
  | Category_eq int
  | Pid_eq int
  | Pid_ne int
  | Pid_in "int list"
  | Updated_ge timestamp
  | Score_minus_ge0 int
  | Score_minus_le0 int

text \<open>\<^verbatim>\<open>ORDER BY score\<close> and \<^verbatim>\<open>ORDER BY ABS(? - score)\<close>.\<close>

datatype order_term = By_score | By_abs_diff int

text \<open>
  \<open>Select_rows\<close> is \<^verbatim>\<open>SELECT * FROM ranking WHERE ... [ORDER BY term dir] [LIMIT ?]\<close>,
  the direction being the text formatted into the statement;
  \<open>Select_count\<close> is \<^verbatim>\<open>SELECT COUNT(*) AS total FROM ranking WHERE ...\<close>.
\<close>

datatype statement =
    Select_rows "cond list" "(order_term \<times> string) option" "int option"
  | Select_count "cond list"

text \<open>
  What SQLite computes. A term \<^verbatim>\<open>region & ?\<close> is true when the bitwise and is not
  zero. \<^verbatim>\<open>pid IN ()\<close> with an empty list is accepted and is false for every row.
\<close>

fun holds :: "cond \<Rightarrow> ranking_row \<Rightarrow> bool" where
  "holds (Gamename_eq g) r = (gamename r = g)"
| "holds (Region_bitand q) r = (and (region r) q \<noteq> 0)"
| "holds (Region_eq q) r = (region r = q)"
| "holds (Category_eq c) r = (category r = c)"
| "holds (Pid_eq p) r = (pid r = p)"
| "holds (Pid_ne p) r = (pid r \<noteq> p)"
| "holds (Pid_in ps) r = (pid r \<in> set ps)"
| "holds (Updated_ge t) r = (updated r \<ge> t)"
| "holds (Score_minus_ge0 s) r = (score r - s \<ge> 0)"
| "holds (Score_minus_le0 s) r = (score r - s \<le> 0)"

definition where_rows :: "cond list \<Rightarrow> ranking_row list \<Rightarrow> ranking_row list" where
  "where_rows cs rows = filter (\<lambda>r. list_all (\<lambda>c. holds c r) cs) rows"

text \<open>
  The value of \<^verbatim>\<open>ABS(a - b)\<close> for two integers of 64 bits. When \<open>a - b\<close> fits in 64
  bits the store subtracts exactly. When it does not, the store converts both
  operands to doubles and subtracts those; the result is again a double. A double
  holds 53 bits: \<open>to_double\<close> rounds an integer to the nearest one, halves to the even
  neighbour (every value below is far inside the range of a double, and every double
  of this size is an integer). Keys are compared by value, integers and doubles alike.
  For \<open>a - b = - 2 ^ 63\<close> the function \<^verbatim>\<open>ABS\<close> raises, see \<open>abs_raises\<close>.
\<close>

function dropped_bits :: "int \<Rightarrow> nat" where
  "dropped_bits a = (if a < 9007199254740992 then 0 else Suc (dropped_bits (a div 2)))"
  by pat_completeness auto
termination
  by (relation "measure nat") auto

declare dropped_bits.simps [simp del]

definition to_double :: "int \<Rightarrow> int" where
  "to_double n =
     (let a = \<bar>n\<bar>;
          e = dropped_bits a;
          q = a div 2 ^ e;
          r = a mod 2 ^ e;
          q' = (if 2 ^ e < 2 * r \<or> (2 * r = 2 ^ e \<and> odd q) then q + 1 else q)
      in sgn n * (q' * 2 ^ e))"

definition abs_diff :: "int \<Rightarrow> int \<Rightarrow> int" where
  "abs_diff a b =
     (if int64 (a - b) then \<bar>a - b\<bar> else \<bar>to_double (to_double a - to_double b)\<bar>)"

text \<open>
  \<^verbatim>\<open>ABS\<close> of the integer \<open>- 2 ^ 63\<close> makes the statement fail with \<^verbatim>\<open>integer overflow\<close>.
  The store computes the key of every row that satisfies the \<^verbatim>\<open>WHERE\<close> clause, unless
  the limit is 0, in which case it visits no row at all.
\<close>

definition abs_raises :: "int \<Rightarrow> int \<Rightarrow> ranking_row list \<Rightarrow> bool" where
  "abs_raises s lim matching =
     (lim \<noteq> 0 \<and> list_ex (\<lambda>r. s - score r = - 9223372036854775808) matching)"

fun order_key :: "order_term \<Rightarrow> ranking_row \<Rightarrow> int" where
  "order_key By_score r = score r"
| "order_key (By_abs_diff s) r = abs_diff s (score r)"

text \<open>
  \<^verbatim>\<open>ORDER BY\<close>: the direction \<^verbatim>\<open>DESC\<close> sorts from the largest key down; \<^verbatim>\<open>ASC\<close> and
  no direction at all sort from the smallest key up. Rows with equal keys come out in
  the order in which the store visits them, in either direction (SQLite promises no
  order for them; this is what it does).
\<close>

definition order_rows :: "order_term \<times> string \<Rightarrow> ranking_row list \<Rightarrow> ranking_row list" where
  "order_rows od rows =
     (if snd od = ''DESC'' then sort_key (\<lambda>r. - order_key (fst od) r) rows
      else sort_key (order_key (fst od)) rows)"

text \<open>\<^verbatim>\<open>LIMIT n\<close>: at most \<open>n\<close> rows; a negative \<open>n\<close> is no bound at all.\<close>

definition limit_rows :: "int \<Rightarrow> ranking_row list \<Rightarrow> ranking_row list" where
  "limit_rows n rows = (if n < 0 then rows else take (nat n) rows)"

definition run_select ::
  "cond list \<Rightarrow> (order_term \<times> string) option \<Rightarrow> int option \<Rightarrow> ranking_row list
     \<Rightarrow> ranking_row list" where
  "run_select cs ord lim table =
     (let matching = where_rows cs table;
          ordered = (case ord of None \<Rightarrow> matching | Some od \<Rightarrow> order_rows od matching)
      in case lim of None \<Rightarrow> ordered | Some n \<Rightarrow> limit_rows n ordered)"

definition run_count :: "cond list \<Rightarrow> ranking_row list \<Rightarrow> int" where
  "run_count cs table = int (length (where_rows cs table))"

text \<open>
  The connection: the table, and the statements executed on it so far, oldest first.
  The module only reads the table in \<^verbatim>\<open>web_get2\<close>, so executing a statement leaves
  the table as it is and appends the statement to the log.
\<close>

record db =
  ranking :: "ranking_row list"
  executed :: "statement list"

text \<open>\<^verbatim>\<open>cursor.execute(...); cursor.fetchall()\<close>\<close>

definition fetchall ::
  "cond list \<Rightarrow> (order_term \<times> string) option \<Rightarrow> int option \<Rightarrow> db
     \<Rightarrow> ranking_row list \<times> db" where
  "fetchall cs ord lim d =
     (run_select cs ord lim (ranking d),
      d\<lparr>executed := executed d @ [Select_rows cs ord lim]\<rparr>)"

text \<open>\<^verbatim>\<open>cursor.execute(...); cursor.fetchone()\<close>: the first row, or \<^verbatim>\<open>None\<close>.\<close>

definition fetchone ::
  "cond list \<Rightarrow> (order_term \<times> string) option \<Rightarrow> int option \<Rightarrow> db
     \<Rightarrow> ranking_row option \<times> db" where
  "fetchone cs ord lim d =
     ((case run_select cs ord lim (ranking d) of [] \<Rightarrow> None | r # _ \<Rightarrow> Some r),
      d\<lparr>executed := executed d @ [Select_rows cs ord lim]\<rparr>)"

text \<open>\<^verbatim>\<open>cursor.execute("SELECT COUNT(*) AS total ..."); cursor.fetchone()["total"]\<close>\<close>

definition fetch_total :: "cond list \<Rightarrow> db \<Rightarrow> int \<times> db" where
  "fetch_total cs d =
     (run_count cs (ranking d), d\<lparr>executed := executed d @ [Select_count cs]\<rparr>)"

section \<open>The module's functions\<close>

definition get2_dictrow ::
  "string \<Rightarrow> int \<Rightarrow> int \<Rightarrow> int \<Rightarrow> int \<Rightarrow> string \<Rightarrow> timestamp \<Rightarrow> ranking_row" where
  "get2_dictrow gn p rg c s dt u =
     \<lparr>gamename = gn, pid = p, region = rg, category = c, score = s, data = dt, updated = u\<rparr>"

text \<open>
  \<^verbatim>\<open>sort_rows(data, rows, mine=None)\<close>. \<^verbatim>\<open>data.get("filter", 1)\<close> is true unless the key
  is present with the value 0. Python's \<^verbatim>\<open>list.sort\<close> is stable, also with
  \<^verbatim>\<open>reverse=True\<close>.
\<close>

definition sort_rows ::
  "'a options_scheme \<Rightarrow> ranking_row list \<Rightarrow> ranking_row option \<Rightarrow> ranking_row list" where
  "sort_rows opts rows mine =
     (case mine of
        None \<Rightarrow> rows
      | Some m \<Rightarrow>
          (if (case o_filter opts of None \<Rightarrow> 1 | Some f \<Rightarrow> f) \<noteq> 0
           then [m] @ sort_key (\<lambda>r. - score r) rows
           else [m] @ sort_key score rows))"

text \<open>\<^verbatim>\<open>FILTERS = {0: "ASC", 1: "DESC"}\<close>\<close>

definition FILTERS :: "int \<rightharpoonup> string" where
  "FILTERS = [0 \<mapsto> ''ASC'', 1 \<mapsto> ''DESC'']"

text \<open>
  \<^verbatim>\<open>self.FILTERS.get(data.get("filter"), "")\<close>: an absent key gives \<^verbatim>\<open>None\<close>, which is
  no key of \<^verbatim>\<open>FILTERS\<close>.
\<close>

definition filters_get :: "'a options_scheme \<Rightarrow> string" where
  "filters_get opts =
     (case o_filter opts of
        None \<Rightarrow> ''''
      | Some f \<Rightarrow> (case FILTERS f of None \<Rightarrow> '''' | Some s \<Rightarrow> s))"

text \<open>\<^verbatim>\<open>data.get("limit", 10)\<close> and \<^verbatim>\<open>data.get("friends", [])\<close>\<close>

definition get_limit :: "'a options_scheme \<Rightarrow> int" where
  "get_limit opts = (case o_limit opts of None \<Rightarrow> 10 | Some l \<Rightarrow> l)"

definition get_friends :: "'a options_scheme \<Rightarrow> int list" where
  "get_friends opts = (case o_friends opts of None \<Rightarrow> [] | Some fs \<Rightarrow> fs)"

type_synonym 'r outcome = "db \<times> (error + 'r)"

text \<open>
  The lookup of the requester's own row, the same statement in the four modes that
  have one, followed by \<^verbatim>\<open>if not mine: mine = get2_dictrow(gamename, pid, 0xFFFFFFFF,
  category)\<close>.
\<close>

definition fetch_mine :: "string \<Rightarrow> int \<Rightarrow> int \<Rightarrow> int \<Rightarrow> db \<Rightarrow> ranking_row \<times> db" where
  "fetch_mine gn p rg c d =
     (let (found, d1) =
            fetchone [Gamename_eq gn, Region_bitand rg, Category_eq c, Pid_eq p] None None d
      in (case found of
            None \<Rightarrow> (get2_dictrow gn p 0xFFFFFFFF c 0 [] 0, d1)
          | Some m \<Rightarrow> (m, d1)))"

definition web_get2_own ::
  "db \<Rightarrow> string \<Rightarrow> int \<Rightarrow> int \<Rightarrow> int \<Rightarrow> 'a options_scheme
     \<Rightarrow> (int \<times> ranking_row list) outcome" where
  "web_get2_own d gn p rg c opts =
     (case o_since opts of
        None \<Rightarrow> (d, Inl (KeyError ''since''))
      | Some since \<Rightarrow>
          (let lim = (if (case o_limit opts of None \<Rightarrow> 0 | Some l \<Rightarrow> l) \<noteq> 0
                      then o_limit opts else None);
               (rows, d1) =
                 fetchall [Gamename_eq gn, Region_bitand rg, Category_eq c, Updated_ge since]
                   (Some (By_score, filters_get opts)) lim d;
               (total, d2) =
                 fetch_total [Gamename_eq gn, Region_bitand rg, Category_eq c, Updated_ge since]
                   d1
           in (d2, Inr (total, sort_rows opts rows None))))"

definition web_get2_top ::
  "db \<Rightarrow> string \<Rightarrow> int \<Rightarrow> int \<Rightarrow> int \<Rightarrow> 'a options_scheme
     \<Rightarrow> (int \<times> ranking_row list) outcome" where
  "web_get2_top d gn p rg c opts =
     (case o_since opts of
        None \<Rightarrow> (d, Inl (KeyError ''since''))
      | Some since \<Rightarrow>
          (let (rows, d1) =
                 fetchall [Gamename_eq gn, Region_bitand rg, Category_eq c, Updated_ge since]
                   (Some (By_score, filters_get opts)) (Some (get_limit opts)) d;
               (total, d2) =
                 fetch_total [Gamename_eq gn, Region_bitand rg, Category_eq c, Updated_ge since]
                   d1
           in (d2, Inr (total, sort_rows opts rows None))))"

text \<open>
  The peer statement of mode 2 is the one statement of the module that can fail in
  the store, by \<open>abs_raises\<close>; \<^verbatim>\<open>cursor.execute\<close> then raises and the function ends.
\<close>

definition web_get2_nearby ::
  "db \<Rightarrow> string \<Rightarrow> int \<Rightarrow> int \<Rightarrow> int \<Rightarrow> 'a options_scheme
     \<Rightarrow> (int \<times> ranking_row list) outcome" where
  "web_get2_nearby d gn p rg c opts =
     (let (mine, d1) = fetch_mine gn p rg c d
      in case o_since opts of
           None \<Rightarrow> (d1, Inl (KeyError ''since''))
         | Some since \<Rightarrow>
             (if abs_raises (score mine) (get_limit opts - 1)
                   (where_rows [Gamename_eq gn, Region_bitand rg, Category_eq c, Pid_ne p,
                                Updated_ge since] (ranking d1))
              then (d1\<lparr>executed := executed d1 @
                        [Select_rows [Gamename_eq gn, Region_bitand rg, Category_eq c, Pid_ne p,
                                      Updated_ge since]
                           (Some (By_abs_diff (score mine), filters_get opts))
                           (Some (get_limit opts - 1))]\<rparr>,
                    Inl (OperationalError ''integer overflow''))
              else
                (let (others, d2) =
                       fetchall [Gamename_eq gn, Region_bitand rg, Category_eq c, Pid_ne p,
                                 Updated_ge since]
                         (Some (By_abs_diff (score mine), filters_get opts))
                         (Some (get_limit opts - 1)) d1;
                     (total, d3) =
                       fetch_total [Gamename_eq gn, Region_bitand rg, Category_eq c, Pid_ne p,
                                    Updated_ge since] d2
                 in (d3, Inr (total, sort_rows opts others (Some mine))))))"

definition web_get2_friends ::
  "db \<Rightarrow> string \<Rightarrow> int \<Rightarrow> int \<Rightarrow> int \<Rightarrow> 'a options_scheme
     \<Rightarrow> (int \<times> ranking_row list) outcome" where
  "web_get2_friends d gn p rg c opts =
     (let (mine, d1) = fetch_mine gn p rg c d
      in case o_since opts of
           None \<Rightarrow> (d1, Inl (KeyError ''since''))
         | Some since \<Rightarrow>
             (let (friends, d2) =
                    fetchall [Gamename_eq gn, Region_eq rg, Category_eq c,
                              Pid_in (get_friends opts), Updated_ge since]
                      (Some (By_score, filters_get opts))
                      (Some (get_limit opts - 1)) d1;
                  (total, d3) =
                    fetch_total [Gamename_eq gn, Region_eq rg, Category_eq c,
                                 Pid_in (get_friends opts), Updated_ge since] d2
              in (d3, Inr (total, sort_rows opts friends (Some mine)))))"

definition web_get2_nearhi ::
  "db \<Rightarrow> string \<Rightarrow> int \<Rightarrow> int \<Rightarrow> int \<Rightarrow> 'a options_scheme
     \<Rightarrow> (int \<times> ranking_row list) outcome" where
  "web_get2_nearhi d gn p rg c opts =
     (let (mine, d1) = fetch_mine gn p rg c d
      in case o_since opts of
           None \<Rightarrow> (d1, Inl (KeyError ''since''))
         | Some since \<Rightarrow>
             (let (others, d2) =
                    fetchall [Gamename_eq gn, Region_bitand rg, Category_eq c, Pid_ne p,
                              Score_minus_ge0 (score mine), Updated_ge since]
                      (Some (By_score, filters_get opts))
                      (Some (get_limit opts - 1)) d1;
                  (total, d3) =
                    fetch_total [Gamename_eq gn, Region_bitand rg, Category_eq c, Pid_ne p,
                                 Score_minus_ge0 (score mine), Updated_ge since] d2
              in (d3, Inr (total, sort_rows opts others (Some mine)))))"

definition web_get2_nearlo ::
  "db \<Rightarrow> string \<Rightarrow> int \<Rightarrow> int \<Rightarrow> int \<Rightarrow> 'a options_scheme
     \<Rightarrow> (int \<times> ranking_row list) outcome" where
  "web_get2_nearlo d gn p rg c opts =
     (let (mine, d1) = fetch_mine gn p rg c d
      in case o_since opts of
           None \<Rightarrow> (d1, Inl (KeyError ''since''))
         | Some since \<Rightarrow>
             (let (others, d2) =
                    fetchall [Gamename_eq gn, Region_bitand rg, Category_eq c, Pid_ne p,
                              Score_minus_le0 (score mine), Updated_ge since]
                      (Some (By_score, filters_get opts))
                      (Some (get_limit opts - 1)) d1;
                  (total, d3) =
                    fetch_total [Gamename_eq gn, Region_bitand rg, Category_eq c, Pid_ne p,
                                 Score_minus_le0 (score mine), Updated_ge since] d2
              in (d3, Inr (total, sort_rows opts others (Some mine)))))"

text \<open>
  The lines under \<^verbatim>\<open># Time filter\<close> of \<^verbatim>\<open>web_get2\<close>. \<open>now\<close> is the value of
  \<^verbatim>\<open>datetime.now()\<close>. \<^verbatim>\<open>timedelta(minutes=m)\<close> raises \<^verbatim>\<open>OverflowError\<close> unless its
  days, \<open>m div 1440\<close>, are at most 999999999 in magnitude, and is \<open>m * 60000000\<close>
  microseconds; the subtraction raises \<^verbatim>\<open>OverflowError\<close> unless its result is a
  \<^verbatim>\<open>datetime\<close>. When they raise, nothing has been assigned to the dictionary.
\<close>

definition time_filter :: "timestamp \<Rightarrow> 'a options_scheme \<Rightarrow> error + 'a options_scheme" where
  "time_filter now opts =
     (case o_updated opts of
        None \<Rightarrow> Inr (opts\<lparr>o_since := Some 0\<rparr>)
      | Some m \<Rightarrow>
          (if m \<noteq> 0
           then (if - 999999999 \<le> m div 1440 \<and> m div 1440 \<le> 999999999
                    \<and> datetime_min \<le> now - m * 60000000
                    \<and> now - m * 60000000 \<le> datetime_max
                 then Inr (opts\<lparr>o_since := Some (now - m * 60000000)\<rparr>)
                 else Inl OverflowError)
           else Inr (opts\<lparr>o_since := Some 0\<rparr>)))"

text \<open>
  \<^verbatim>\<open>web_get2(gamename, pid, region, category, mode, data)\<close>. The dictionary is changed
  in place, so the function returns it with the result, also when it raises.
\<close>

definition web_get2 ::
  "db \<Rightarrow> timestamp \<Rightarrow> string \<Rightarrow> int \<Rightarrow> int \<Rightarrow> int \<Rightarrow> int \<Rightarrow> 'a options_scheme
     \<Rightarrow> 'a options_scheme \<times> (int \<times> ranking_row list) outcome" where
  "web_get2 d now gn p rg c mode opts =
     (case time_filter now opts of
        Inl e \<Rightarrow> (opts, d, Inl e)
      | Inr opts1 \<Rightarrow>
          (if mode = 0 then (opts1, web_get2_own d gn p rg c opts1)
           else if mode = 1 then (opts1, web_get2_top d gn p rg c opts1)
           else if mode = 2 then (opts1, web_get2_nearby d gn p rg c opts1)
           else if mode = 3 then (opts1, web_get2_friends d gn p rg c opts1)
           else if mode = 4 then (opts1, web_get2_nearhi d gn p rg c opts1)
           else if mode = 5 then (opts1, web_get2_nearlo d gn p rg c opts1)
           else (opts1, d, Inl (ValueError mode))))"

section \<open>The scenario store\<close>

text \<open>
  The store of the documented scenarios: game \<^verbatim>\<open>demo\<close>, region 1, category 0, the
  players 7, 8 and 9 with the scores 50, 80 and 30, every row written at the time \<open>u\<close>.
  \<open>no_options\<close> is the empty dictionary.
\<close>

definition demo_row :: "int \<Rightarrow> int \<Rightarrow> timestamp \<Rightarrow> ranking_row" where
  "demo_row p s u =
     \<lparr>gamename = ''demo'', pid = p, region = 1, category = 0, score = s, data = [],
      updated = u\<rparr>"

definition demo_db :: "timestamp \<Rightarrow> db" where
  "demo_db u =
     \<lparr>ranking = [demo_row 7 50 u, demo_row 8 80 u, demo_row 9 30 u], executed = []\<rparr>"

definition no_options :: options where
  "no_options =
     \<lparr>o_updated = None, o_limit = None, o_filter = None, o_friends = None, o_since = None\<rparr>"

text \<open>
  More stores. In \<open>aged_db\<close> the rows of the players 7 and 8 were written at the
  epoch and the row of player 9 one hundred seconds later. \<open>crowd_db\<close> holds eleven
  players, player \<open>i\<close> with score \<open>i\<close>. \<open>wide_region_db\<close> holds one row of player 7
  whose region is 3, the bits of the regions 1 and 2. In \<open>extreme_db\<close> player 7 has
  the score -1 and player 8 the largest score of 64 bits. In \<open>signed_db\<close> the players
  8 and 9 have the scores -100 and 10.
\<close>

definition aged_db :: db where
  "aged_db =
     \<lparr>ranking = [demo_row 7 50 0, demo_row 8 80 0, demo_row 9 30 100000000], executed = []\<rparr>"

definition crowd_db :: db where
  "crowd_db =
     \<lparr>ranking = map (\<lambda>i. demo_row i i 1000) [1, 2, 3, 4, 5, 6, 7, 8, 9, 10, 11],
      executed = []\<rparr>"

definition wide_region_db :: db where
  "wide_region_db = \<lparr>ranking = [(demo_row 7 50 1000)\<lparr>region := 3\<rparr>], executed = []\<rparr>"

definition extreme_db :: db where
  "extreme_db =
     \<lparr>ranking = [demo_row 7 (- 1) 1000, demo_row 8 9223372036854775807 1000], executed = []\<rparr>"

definition signed_db :: db where
  "signed_db = \<lparr>ranking = [demo_row 8 (- 100) 1000, demo_row 9 10 1000], executed = []\<rparr>"

section \<open>What a statement returns\<close>

lemma set_where_rows:
  "set (where_rows cs t) = {r \<in> set t. list_all (\<lambda>c. holds c r) cs}"
  by (simp add: where_rows_def)

lemma set_order_rows: "set (order_rows od rows) = set rows"
  by (simp add: order_rows_def)

lemma length_order_rows: "length (order_rows od rows) = length rows"
  by (simp add: order_rows_def)

lemma set_limit_rows_subset: "set (limit_rows n rows) \<subseteq> set rows"
  by (auto simp: limit_rows_def dest: in_set_takeD)

lemma length_limit_rows_le: "0 \<le> n \<Longrightarrow> length (limit_rows n rows) \<le> nat n"
  by (simp add: limit_rows_def)

lemma limit_rows_negative: "n < 0 \<Longrightarrow> limit_rows n rows = rows"
  by (simp add: limit_rows_def)

lemma set_run_select_subset: "set (run_select cs ord lim t) \<subseteq> set (where_rows cs t)"
proof (cases lim)
  case None
  then show ?thesis
    by (simp add: run_select_def Let_def set_order_rows split: option.split)
next
  case (Some n)
  have "set (limit_rows n (case ord of None \<Rightarrow> where_rows cs t
                           | Some od \<Rightarrow> order_rows od (where_rows cs t)))
          \<subseteq> set (case ord of None \<Rightarrow> where_rows cs t
                           | Some od \<Rightarrow> order_rows od (where_rows cs t))"
    by (rule set_limit_rows_subset)
  also have "\<dots> = set (where_rows cs t)"
    by (simp add: set_order_rows split: option.split)
  finally show ?thesis
    using Some by (simp add: run_select_def Let_def)
qed

lemma run_select_holds:
  "r \<in> set (run_select cs ord lim t) \<Longrightarrow> c \<in> set cs \<Longrightarrow> holds c r"
  using set_run_select_subset [of cs ord lim t]
  by (auto simp: set_where_rows list_all_iff)

lemma length_run_select_le:
  "0 \<le> n \<Longrightarrow> length (run_select cs ord (Some n) t) \<le> nat n"
  by (simp add: run_select_def Let_def length_limit_rows_le)

lemma length_run_select_unbounded:
  "length (run_select cs ord None t) = length (where_rows cs t)"
  by (simp add: run_select_def Let_def length_order_rows split: option.split)

lemma run_select_negative:
  "n < 0 \<Longrightarrow> run_select cs ord (Some n) t = run_select cs ord None t"
  by (simp add: run_select_def Let_def limit_rows_negative)



lemma snd_fetch_mine:
  "snd (fetch_mine gn p rg c d) =
     d\<lparr>executed := executed d @
        [Select_rows [Gamename_eq gn, Region_bitand rg, Category_eq c, Pid_eq p] None None]\<rparr>"
  by (simp add: fetch_mine_def fetchone_def split: list.split)

lemma web_get2_own_since:
  assumes "o_since opts = Some s"
  shows "web_get2_own d gn p rg c opts =
     (d\<lparr>executed := executed d @
          [Select_rows [Gamename_eq gn, Region_bitand rg, Category_eq c, Updated_ge s]
             (Some (By_score, filters_get opts))
             (if (case o_limit opts of None \<Rightarrow> 0 | Some l \<Rightarrow> l) \<noteq> 0 then o_limit opts else None),
           Select_count [Gamename_eq gn, Region_bitand rg, Category_eq c, Updated_ge s]]\<rparr>,
      Inr (run_count [Gamename_eq gn, Region_bitand rg, Category_eq c, Updated_ge s] (ranking d),
           run_select [Gamename_eq gn, Region_bitand rg, Category_eq c, Updated_ge s]
             (Some (By_score, filters_get opts))
             (if (case o_limit opts of None \<Rightarrow> 0 | Some l \<Rightarrow> l) \<noteq> 0 then o_limit opts else None)
             (ranking d)))"
  using assms
  by (simp add: web_get2_own_def fetchall_def fetch_total_def sort_rows_def Let_def)

lemma web_get2_top_since:
  assumes "o_since opts = Some s"
  shows "web_get2_top d gn p rg c opts =
     (d\<lparr>executed := executed d @
          [Select_rows [Gamename_eq gn, Region_bitand rg, Category_eq c, Updated_ge s]
             (Some (By_score, filters_get opts)) (Some (get_limit opts)),
           Select_count [Gamename_eq gn, Region_bitand rg, Category_eq c, Updated_ge s]]\<rparr>,
      Inr (run_count [Gamename_eq gn, Region_bitand rg, Category_eq c, Updated_ge s] (ranking d),
           run_select [Gamename_eq gn, Region_bitand rg, Category_eq c, Updated_ge s]
             (Some (By_score, filters_get opts)) (Some (get_limit opts)) (ranking d)))"
  using assms
  by (simp add: web_get2_top_def fetchall_def fetch_total_def sort_rows_def Let_def)

lemma web_get2_nearby_since:
  assumes "o_since opts = Some s"
  shows "web_get2_nearby d gn p rg c opts =
     (if abs_raises (score (fst (fetch_mine gn p rg c d))) (get_limit opts - 1)
           (where_rows [Gamename_eq gn, Region_bitand rg, Category_eq c, Pid_ne p, Updated_ge s]
              (ranking d))
      then (d\<lparr>executed := executed d @
              [Select_rows [Gamename_eq gn, Region_bitand rg, Category_eq c, Pid_eq p] None None,
               Select_rows [Gamename_eq gn, Region_bitand rg, Category_eq c, Pid_ne p, Updated_ge s]
                 (Some (By_abs_diff (score (fst (fetch_mine gn p rg c d))), filters_get opts))
                 (Some (get_limit opts - 1))]\<rparr>,
            Inl (OperationalError ''integer overflow''))
      else
        (d\<lparr>executed := executed d @
           [Select_rows [Gamename_eq gn, Region_bitand rg, Category_eq c, Pid_eq p] None None,
            Select_rows [Gamename_eq gn, Region_bitand rg, Category_eq c, Pid_ne p, Updated_ge s]
              (Some (By_abs_diff (score (fst (fetch_mine gn p rg c d))), filters_get opts))
              (Some (get_limit opts - 1)),
            Select_count [Gamename_eq gn, Region_bitand rg, Category_eq c, Pid_ne p, Updated_ge s]]\<rparr>,
         Inr (run_count [Gamename_eq gn, Region_bitand rg, Category_eq c, Pid_ne p, Updated_ge s]
                (ranking d),
              sort_rows opts
                (run_select [Gamename_eq gn, Region_bitand rg, Category_eq c, Pid_ne p, Updated_ge s]
                   (Some (By_abs_diff (score (fst (fetch_mine gn p rg c d))), filters_get opts))
                   (Some (get_limit opts - 1)) (ranking d))
                (Some (fst (fetch_mine gn p rg c d))))))"
  using assms snd_fetch_mine [of gn p rg c d]
  by (simp add: web_get2_nearby_def fetchall_def fetch_total_def Let_def split_beta)

lemma web_get2_friends_since:
  assumes "o_since opts = Some s"
  shows "web_get2_friends d gn p rg c opts =
     (d\<lparr>executed := executed d @
          [Select_rows [Gamename_eq gn, Region_bitand rg, Category_eq c, Pid_eq p] None None,
           Select_rows [Gamename_eq gn, Region_eq rg, Category_eq c, Pid_in (get_friends opts),
             Updated_ge s]
             (Some (By_score, filters_get opts)) (Some (get_limit opts - 1)),
           Select_count [Gamename_eq gn, Region_eq rg, Category_eq c, Pid_in (get_friends opts),
             Updated_ge s]]\<rparr>,
      Inr (run_count [Gamename_eq gn, Region_eq rg, Category_eq c, Pid_in (get_friends opts),
             Updated_ge s] (ranking d),
           sort_rows opts
             (run_select [Gamename_eq gn, Region_eq rg, Category_eq c, Pid_in (get_friends opts),
                Updated_ge s]
                (Some (By_score, filters_get opts)) (Some (get_limit opts - 1)) (ranking d))
             (Some (fst (fetch_mine gn p rg c d)))))"
  using assms snd_fetch_mine [of gn p rg c d]
  by (simp add: web_get2_friends_def fetchall_def fetch_total_def Let_def split_beta)

lemma web_get2_nearhi_since:
  assumes "o_since opts = Some s"
  shows "web_get2_nearhi d gn p rg c opts =
     (d\<lparr>executed := executed d @
          [Select_rows [Gamename_eq gn, Region_bitand rg, Category_eq c, Pid_eq p] None None,
           Select_rows [Gamename_eq gn, Region_bitand rg, Category_eq c, Pid_ne p,
             Score_minus_ge0 (score (fst (fetch_mine gn p rg c d))), Updated_ge s]
             (Some (By_score, filters_get opts)) (Some (get_limit opts - 1)),
           Select_count [Gamename_eq gn, Region_bitand rg, Category_eq c, Pid_ne p,
             Score_minus_ge0 (score (fst (fetch_mine gn p rg c d))), Updated_ge s]]\<rparr>,
      Inr (run_count [Gamename_eq gn, Region_bitand rg, Category_eq c, Pid_ne p,
             Score_minus_ge0 (score (fst (fetch_mine gn p rg c d))), Updated_ge s] (ranking d),
           sort_rows opts
             (run_select [Gamename_eq gn, Region_bitand rg, Category_eq c, Pid_ne p,
                Score_minus_ge0 (score (fst (fetch_mine gn p rg c d))), Updated_ge s]
                (Some (By_score, filters_get opts)) (Some (get_limit opts - 1)) (ranking d))
             (Some (fst (fetch_mine gn p rg c d)))))"
  using assms snd_fetch_mine [of gn p rg c d]
  by (simp add: web_get2_nearhi_def fetchall_def fetch_total_def Let_def split_beta)

lemma web_get2_nearlo_since:
  assumes "o_since opts = Some s"
  shows "web_get2_nearlo d gn p rg c opts =
     (d\<lparr>executed := executed d @
          [Select_rows [Gamename_eq gn, Region_bitand rg, Category_eq c, Pid_eq p] None None,
           Select_rows [Gamename_eq gn, Region_bitand rg, Category_eq c, Pid_ne p,
             Score_minus_le0 (score (fst (fetch_mine gn p rg c d))), Updated_ge s]
             (Some (By_score, filters_get opts)) (Some (get_limit opts - 1)),
           Select_count [Gamename_eq gn, Region_bitand rg, Category_eq c, Pid_ne p,
             Score_minus_le0 (score (fst (fetch_mine gn p rg c d))), Updated_ge s]]\<rparr>,
      Inr (run_count [Gamename_eq gn, Region_bitand rg, Category_eq c, Pid_ne p,
             Score_minus_le0 (score (fst (fetch_mine gn p rg c d))), Updated_ge s] (ranking d),
           sort_rows opts
             (run_select [Gamename_eq gn, Region_bitand rg, Category_eq c, Pid_ne p,
                Score_minus_le0 (score (fst (fetch_mine gn p rg c d))), Updated_ge s]
                (Some (By_score, filters_get opts)) (Some (get_limit opts - 1)) (ranking d))
             (Some (fst (fetch_mine gn p rg c d)))))"
  using assms snd_fetch_mine [of gn p rg c d]
  by (simp add: web_get2_nearlo_def fetchall_def fetch_total_def Let_def split_beta)

lemma time_filter_result:
  obtains "time_filter now opts = Inl OverflowError"
  | s where "time_filter now opts = Inr (opts\<lparr>o_since := Some s\<rparr>)"
proof (cases "time_filter now opts")
  case (Inl e)
  then have "e = OverflowError"
    by (auto simp: time_filter_def split: option.splits if_splits)
  with Inl show ?thesis
    by (simp add: that(1))
next
  case (Inr opts1)
  then obtain s where "opts1 = opts\<lparr>o_since := Some s\<rparr>"
    by (auto simp: time_filter_def split: option.splits if_splits)
  with Inr show ?thesis
    by (simp add: that(2))
qed

lemma fst_web_get2:
  "fst (web_get2 d now gn p rg c mode opts) =
     (case time_filter now opts of Inl e \<Rightarrow> opts | Inr opts1 \<Rightarrow> opts1)"
  by (simp add: web_get2_def split: sum.split)

lemma web_get2_raised:
  assumes "time_filter now opts = Inl e"
  shows "web_get2 d now gn p rg c mode opts = (opts, d, Inl e)"
  using assms by (simp add: web_get2_def)

lemma web_get2_resolved:
  assumes "time_filter now opts = Inr opts1"
  shows "web_get2 d now gn p rg c mode opts =
     (opts1,
      if mode = 0 then web_get2_own d gn p rg c opts1
      else if mode = 1 then web_get2_top d gn p rg c opts1
      else if mode = 2 then web_get2_nearby d gn p rg c opts1
      else if mode = 3 then web_get2_friends d gn p rg c opts1
      else if mode = 4 then web_get2_nearhi d gn p rg c opts1
      else if mode = 5 then web_get2_nearlo d gn p rg c opts1
      else (d, Inl (ValueError mode)))"
  using assms by (simp add: web_get2_def)

lemma resolved_of_result:
  assumes "snd (snd (web_get2 d now gn p rg c mode opts)) = Inr x"
  obtains s where "time_filter now opts = Inr (opts\<lparr>o_since := Some s\<rparr>)"
proof (cases rule: time_filter_result [of now opts])
  case 1
  from web_get2_raised [OF this, of d gn p rg c mode] assms show ?thesis by simp
next
  case (2 s)
  then show ?thesis by (rule that)
qed

lemma resolved_keys:
  "get_limit (opts\<lparr>o_since := x\<rparr>) = get_limit opts"
  "get_friends (opts\<lparr>o_since := x\<rparr>) = get_friends opts"
  "filters_get (opts\<lparr>o_since := x\<rparr>) = filters_get opts"
  "sort_rows (opts\<lparr>o_since := x\<rparr>) rows mine = sort_rows opts rows mine"
  by (simp_all add: get_limit_def get_friends_def filters_get_def sort_rows_def
      split: option.split)

lemma sort_rows_mine:
  "sort_rows opts rows (Some m) =
     m # (if (case o_filter opts of None \<Rightarrow> 1 | Some f \<Rightarrow> f) \<noteq> 0
          then sort_key (\<lambda>r. - score r) rows else sort_key score rows)"
  by (simp add: sort_rows_def)

lemma set_tl_sort_rows: "set (tl (sort_rows opts rows (Some m))) = set rows"
  by (simp add: sort_rows_mine)

section \<open>The result of each mode\<close>

lemma since_of_result:
  assumes "snd (snd (web_get2 d now gn p rg c mode opts)) = Inr x"
  shows "\<exists>s. o_since (fst (web_get2 d now gn p rg c mode opts)) = Some s"
  using assms by (rule resolved_of_result) (simp add: fst_web_get2)

lemma resolved_fst:
  "get_limit (fst (web_get2 d now gn p rg c mode opts)) = get_limit opts"
  "get_friends (fst (web_get2 d now gn p rg c mode opts)) = get_friends opts"
  "filters_get (fst (web_get2 d now gn p rg c mode opts)) = filters_get opts"
  "sort_rows (fst (web_get2 d now gn p rg c mode opts)) rows mine = sort_rows opts rows mine"
  "o_limit (fst (web_get2 d now gn p rg c mode opts)) = o_limit opts"
  by (cases rule: time_filter_result [of now opts]; simp add: fst_web_get2 resolved_keys)+

lemma outcome_mode0:
  assumes mode: "mode = 0"
      and since: "o_since (fst (web_get2 d now gn p rg c mode opts)) = Some s"
      and res: "snd (snd (web_get2 d now gn p rg c mode opts)) = Inr x"
  shows "snd (web_get2 d now gn p rg c mode opts) =
     (d\<lparr>executed := executed d @
          [Select_rows [Gamename_eq gn, Region_bitand rg, Category_eq c, Updated_ge s]
             (Some (By_score, filters_get opts))
             (if (case o_limit opts of None \<Rightarrow> 0 | Some l \<Rightarrow> l) \<noteq> 0
              then o_limit opts else None),
           Select_count [Gamename_eq gn, Region_bitand rg, Category_eq c, Updated_ge s]]\<rparr>,
      Inr (run_count [Gamename_eq gn, Region_bitand rg, Category_eq c, Updated_ge s] (ranking d),
           run_select [Gamename_eq gn, Region_bitand rg, Category_eq c, Updated_ge s]
             (Some (By_score, filters_get opts))
             (if (case o_limit opts of None \<Rightarrow> 0 | Some l \<Rightarrow> l) \<noteq> 0
              then o_limit opts else None) (ranking d)))"
proof -
  from res obtain s' where tf: "time_filter now opts = Inr (opts\<lparr>o_since := Some s'\<rparr>)"
    by (rule resolved_of_result)
  with since have "s' = s"
    by (simp add: fst_web_get2)
  with tf have w: "snd (web_get2 d now gn p rg c mode opts) =
      web_get2_own d gn p rg c (opts\<lparr>o_since := Some s\<rparr>)"
    using mode by (simp add: web_get2_resolved)
  have "o_since (opts\<lparr>o_since := Some s\<rparr>) = Some s"
    by simp
  note strategy = web_get2_own_since [OF this, of d gn p rg c]
  with w show ?thesis
    by (simp add: resolved_keys)
qed

lemma outcome_mode1:
  assumes mode: "mode = 1"
      and since: "o_since (fst (web_get2 d now gn p rg c mode opts)) = Some s"
      and res: "snd (snd (web_get2 d now gn p rg c mode opts)) = Inr x"
  shows "snd (web_get2 d now gn p rg c mode opts) =
     (d\<lparr>executed := executed d @
          [Select_rows [Gamename_eq gn, Region_bitand rg, Category_eq c, Updated_ge s]
             (Some (By_score, filters_get opts))
             (Some (get_limit opts)),
           Select_count [Gamename_eq gn, Region_bitand rg, Category_eq c, Updated_ge s]]\<rparr>,
      Inr (run_count [Gamename_eq gn, Region_bitand rg, Category_eq c, Updated_ge s] (ranking d),
           run_select [Gamename_eq gn, Region_bitand rg, Category_eq c, Updated_ge s]
             (Some (By_score, filters_get opts))
             (Some (get_limit opts)) (ranking d)))"
proof -
  from res obtain s' where tf: "time_filter now opts = Inr (opts\<lparr>o_since := Some s'\<rparr>)"
    by (rule resolved_of_result)
  with since have "s' = s"
    by (simp add: fst_web_get2)
  with tf have w: "snd (web_get2 d now gn p rg c mode opts) =
      web_get2_top d gn p rg c (opts\<lparr>o_since := Some s\<rparr>)"
    using mode by (simp add: web_get2_resolved)
  have "o_since (opts\<lparr>o_since := Some s\<rparr>) = Some s"
    by simp
  note strategy = web_get2_top_since [OF this, of d gn p rg c]
  with w show ?thesis
    by (simp add: resolved_keys)
qed

lemma outcome_mode2:
  assumes mode: "mode = 2"
      and since: "o_since (fst (web_get2 d now gn p rg c mode opts)) = Some s"
      and res: "snd (snd (web_get2 d now gn p rg c mode opts)) = Inr x"
  shows "snd (web_get2 d now gn p rg c mode opts) =
     (d\<lparr>executed := executed d @
          [Select_rows [Gamename_eq gn, Region_bitand rg, Category_eq c, Pid_eq p] None None,
           Select_rows [Gamename_eq gn, Region_bitand rg, Category_eq c, Pid_ne p, Updated_ge s]
             (Some (By_abs_diff (score (fst (fetch_mine gn p rg c d))), filters_get opts))
             (Some (get_limit opts - 1)),
           Select_count [Gamename_eq gn, Region_bitand rg, Category_eq c, Pid_ne p, Updated_ge s]]\<rparr>,
      Inr (run_count [Gamename_eq gn, Region_bitand rg, Category_eq c, Pid_ne p, Updated_ge s] (ranking d),
           sort_rows opts
            (run_select [Gamename_eq gn, Region_bitand rg, Category_eq c, Pid_ne p, Updated_ge s]
             (Some (By_abs_diff (score (fst (fetch_mine gn p rg c d))), filters_get opts))
             (Some (get_limit opts - 1)) (ranking d))
            (Some (fst (fetch_mine gn p rg c d)))))"
proof -
  from res obtain s' where tf: "time_filter now opts = Inr (opts\<lparr>o_since := Some s'\<rparr>)"
    by (rule resolved_of_result)
  with since have "s' = s"
    by (simp add: fst_web_get2)
  with tf have w: "snd (web_get2 d now gn p rg c mode opts) =
      web_get2_nearby d gn p rg c (opts\<lparr>o_since := Some s\<rparr>)"
    using mode by (simp add: web_get2_resolved)
  have "o_since (opts\<lparr>o_since := Some s\<rparr>) = Some s"
    by simp
  note strategy = web_get2_nearby_since [OF this, of d gn p rg c, unfolded resolved_keys]
  show ?thesis
  proof (cases "abs_raises (score (fst (fetch_mine gn p rg c d))) (get_limit opts - 1)
      (where_rows [Gamename_eq gn, Region_bitand rg, Category_eq c, Pid_ne p, Updated_ge s]
         (ranking d))")
    case True
    with w strategy res show ?thesis by simp
  next
    case False
    with w strategy show ?thesis by simp
  qed
qed

lemma outcome_mode3:
  assumes mode: "mode = 3"
      and since: "o_since (fst (web_get2 d now gn p rg c mode opts)) = Some s"
      and res: "snd (snd (web_get2 d now gn p rg c mode opts)) = Inr x"
  shows "snd (web_get2 d now gn p rg c mode opts) =
     (d\<lparr>executed := executed d @
          [Select_rows [Gamename_eq gn, Region_bitand rg, Category_eq c, Pid_eq p] None None,
           Select_rows [Gamename_eq gn, Region_eq rg, Category_eq c, Pid_in (get_friends opts),
              Updated_ge s]
             (Some (By_score, filters_get opts))
             (Some (get_limit opts - 1)),
           Select_count [Gamename_eq gn, Region_eq rg, Category_eq c, Pid_in (get_friends opts),
              Updated_ge s]]\<rparr>,
      Inr (run_count [Gamename_eq gn, Region_eq rg, Category_eq c, Pid_in (get_friends opts),
              Updated_ge s] (ranking d),
           sort_rows opts
            (run_select [Gamename_eq gn, Region_eq rg, Category_eq c, Pid_in (get_friends opts),
              Updated_ge s]
             (Some (By_score, filters_get opts))
             (Some (get_limit opts - 1)) (ranking d))
            (Some (fst (fetch_mine gn p rg c d)))))"
proof -
  from res obtain s' where tf: "time_filter now opts = Inr (opts\<lparr>o_since := Some s'\<rparr>)"
    by (rule resolved_of_result)
  with since have "s' = s"
    by (simp add: fst_web_get2)
  with tf have w: "snd (web_get2 d now gn p rg c mode opts) =
      web_get2_friends d gn p rg c (opts\<lparr>o_since := Some s\<rparr>)"
    using mode by (simp add: web_get2_resolved)
  have "o_since (opts\<lparr>o_since := Some s\<rparr>) = Some s"
    by simp
  note strategy = web_get2_friends_since [OF this, of d gn p rg c]
  with w show ?thesis
    by (simp add: resolved_keys)
qed

lemma outcome_mode4:
  assumes mode: "mode = 4"
      and since: "o_since (fst (web_get2 d now gn p rg c mode opts)) = Some s"
      and res: "snd (snd (web_get2 d now gn p rg c mode opts)) = Inr x"
  shows "snd (web_get2 d now gn p rg c mode opts) =
     (d\<lparr>executed := executed d @
          [Select_rows [Gamename_eq gn, Region_bitand rg, Category_eq c, Pid_eq p] None None,
           Select_rows [Gamename_eq gn, Region_bitand rg, Category_eq c, Pid_ne p,
              Score_minus_ge0 (score (fst (fetch_mine gn p rg c d))), Updated_ge s]
             (Some (By_score, filters_get opts))
             (Some (get_limit opts - 1)),
           Select_count [Gamename_eq gn, Region_bitand rg, Category_eq c, Pid_ne p,
              Score_minus_ge0 (score (fst (fetch_mine gn p rg c d))), Updated_ge s]]\<rparr>,
      Inr (run_count [Gamename_eq gn, Region_bitand rg, Category_eq c, Pid_ne p,
              Score_minus_ge0 (score (fst (fetch_mine gn p rg c d))), Updated_ge s] (ranking d),
           sort_rows opts
            (run_select [Gamename_eq gn, Region_bitand rg, Category_eq c, Pid_ne p,
              Score_minus_ge0 (score (fst (fetch_mine gn p rg c d))), Updated_ge s]
             (Some (By_score, filters_get opts))
             (Some (get_limit opts - 1)) (ranking d))
            (Some (fst (fetch_mine gn p rg c d)))))"
proof -
  from res obtain s' where tf: "time_filter now opts = Inr (opts\<lparr>o_since := Some s'\<rparr>)"
    by (rule resolved_of_result)
  with since have "s' = s"
    by (simp add: fst_web_get2)
  with tf have w: "snd (web_get2 d now gn p rg c mode opts) =
      web_get2_nearhi d gn p rg c (opts\<lparr>o_since := Some s\<rparr>)"
    using mode by (simp add: web_get2_resolved)
  have "o_since (opts\<lparr>o_since := Some s\<rparr>) = Some s"
    by simp
  note strategy = web_get2_nearhi_since [OF this, of d gn p rg c]
  with w show ?thesis
    by (simp add: resolved_keys)
qed

lemma outcome_mode5:
  assumes mode: "mode = 5"
      and since: "o_since (fst (web_get2 d now gn p rg c mode opts)) = Some s"
      and res: "snd (snd (web_get2 d now gn p rg c mode opts)) = Inr x"
  shows "snd (web_get2 d now gn p rg c mode opts) =
     (d\<lparr>executed := executed d @
          [Select_rows [Gamename_eq gn, Region_bitand rg, Category_eq c, Pid_eq p] None None,
           Select_rows [Gamename_eq gn, Region_bitand rg, Category_eq c, Pid_ne p,
              Score_minus_le0 (score (fst (fetch_mine gn p rg c d))), Updated_ge s]
             (Some (By_score, filters_get opts))
             (Some (get_limit opts - 1)),
           Select_count [Gamename_eq gn, Region_bitand rg, Category_eq c, Pid_ne p,
              Score_minus_le0 (score (fst (fetch_mine gn p rg c d))), Updated_ge s]]\<rparr>,
      Inr (run_count [Gamename_eq gn, Region_bitand rg, Category_eq c, Pid_ne p,
              Score_minus_le0 (score (fst (fetch_mine gn p rg c d))), Updated_ge s] (ranking d),
           sort_rows opts
            (run_select [Gamename_eq gn, Region_bitand rg, Category_eq c, Pid_ne p,
              Score_minus_le0 (score (fst (fetch_mine gn p rg c d))), Updated_ge s]
             (Some (By_score, filters_get opts))
             (Some (get_limit opts - 1)) (ranking d))
            (Some (fst (fetch_mine gn p rg c d)))))"
proof -
  from res obtain s' where tf: "time_filter now opts = Inr (opts\<lparr>o_since := Some s'\<rparr>)"
    by (rule resolved_of_result)
  with since have "s' = s"
    by (simp add: fst_web_get2)
  with tf have w: "snd (web_get2 d now gn p rg c mode opts) =
      web_get2_nearlo d gn p rg c (opts\<lparr>o_since := Some s\<rparr>)"
    using mode by (simp add: web_get2_resolved)
  have "o_since (opts\<lparr>o_since := Some s\<rparr>) = Some s"
    by simp
  note strategy = web_get2_nearlo_since [OF this, of d gn p rg c]
  with w show ?thesis
    by (simp add: resolved_keys)
qed

lemma result_unknown_mode:
  assumes "mode \<notin> {0, 1, 2, 3, 4, 5}" and "time_filter now opts = Inr opts1"
  shows "web_get2 d now gn p rg c mode opts = (opts1, d, Inl (ValueError mode))"
  using assms by (simp add: web_get2_resolved)

lemma Inr_result_known_mode:
  assumes "snd (snd (web_get2 d now gn p rg c mode opts)) = Inr x"
  shows "mode = 0 \<or> mode = 1 \<or> mode = 2 \<or> mode = 3 \<or> mode = 4 \<or> mode = 5"
proof (rule ccontr)
  assume "\<not> ?thesis"
  then have unknown: "mode \<notin> {0, 1, 2, 3, 4, 5}" by simp
  from assms obtain s where "time_filter now opts = Inr (opts\<lparr>o_since := Some s\<rparr>)"
    by (rule resolved_of_result)
  from result_unknown_mode [OF unknown this, of d gn p rg c] assms show False by simp
qed

section \<open>Evaluation on concrete stores, sorting, and limits\<close>

lemmas engine_defs =
  web_get2_def web_get2_own_def web_get2_top_def web_get2_nearby_def web_get2_friends_def
  web_get2_nearhi_def web_get2_nearlo_def fetch_mine_def fetchone_def fetchall_def
  fetch_total_def run_select_def run_count_def where_rows_def order_rows_def limit_rows_def
  sort_rows_def get2_dictrow_def filters_get_def FILTERS_def get_limit_def get_friends_def
  time_filter_def datetime_min_def datetime_max_def abs_raises_def abs_diff_def int64_def

lemmas scenario_defs =
  demo_db_def demo_row_def no_options_def aged_db_def crowd_db_def wide_region_db_def
  extreme_db_def signed_db_def

lemma sorted_desc_sort_key:
  fixes f :: "'a \<Rightarrow> int"
  shows "sorted_wrt (\<ge>) (map f (sort_key (\<lambda>r. - f r) xs))"
proof -
  have "sorted (map (\<lambda>r. - f r) (sort_key (\<lambda>r. - f r) xs))"
    by (rule sorted_sort_key)
  then show ?thesis
    by (simp add: sorted_wrt_map)
qed

lemma sorted_asc_sort_key:
  fixes f :: "'a \<Rightarrow> int"
  shows "sorted_wrt (\<le>) (map f (sort_key f xs))"
  using sorted_sort_key [of f xs] by simp

lemma sorted_wrt_limit_rows:
  "sorted_wrt R (map f rows) \<Longrightarrow> sorted_wrt R (map f (limit_rows n rows))"
  by (simp add: limit_rows_def sorted_wrt_take flip: take_map)

lemma run_select_desc:
  "sorted_wrt (\<ge>) (map (order_key t) (run_select cs (Some (t, ''DESC'')) lim table))"
proof -
  have "sorted_wrt (\<ge>) (map (order_key t) (order_rows (t, ''DESC'') (where_rows cs table)))"
    by (simp add: order_rows_def sorted_desc_sort_key)
  then show ?thesis
    by (cases lim) (simp_all add: run_select_def Let_def sorted_wrt_limit_rows)
qed

lemma run_select_asc:
  assumes "dir \<noteq> ''DESC''"
  shows "sorted_wrt (\<le>) (map (order_key t) (run_select cs (Some (t, dir)) lim table))"
proof -
  have "sorted_wrt (\<le>) (map (order_key t) (order_rows (t, dir) (where_rows cs table)))"
    using assms by (simp add: order_rows_def sorted_asc_sort_key)
  then show ?thesis
    by (cases lim) (simp_all add: run_select_def Let_def sorted_wrt_limit_rows)
qed

lemma run_select_fresh:
  "r \<in> set (run_select cs ord lim t) \<Longrightarrow> Updated_ge s \<in> set cs \<Longrightarrow> s \<le> updated r"
  using run_select_holds [of r cs ord lim t "Updated_ge s"] by simp

lemma where_rows_fresh:
  "r \<in> set (where_rows cs t) \<Longrightarrow> Updated_ge s \<in> set cs \<Longrightarrow> s \<le> updated r"
  by (auto simp: set_where_rows list_all_iff)



lemma known_mode_cases:
  assumes "snd (snd (web_get2 d now gn p rg c mode opts)) = Inr x"
  obtains "mode = 0" | "mode = 1" | "mode = 2" | "mode = 3" | "mode = 4" | "mode = 5"
  using Inr_result_known_mode [OF assms] by blast

lemma length_run_select_all:
  "n < 0 \<Longrightarrow> int (length (run_select cs ord (Some n) t)) = run_count cs t"
  by (simp add: run_select_negative length_run_select_unbounded run_count_def)

lemma length_run_select_none:
  "int (length (run_select cs ord None t)) = run_count cs t"
  by (simp add: length_run_select_unbounded run_count_def)

lemma length_run_select_int:
  "0 \<le> n \<Longrightarrow> int (length (run_select cs ord (Some n) t)) \<le> n"
  using length_run_select_le [of n cs ord t] by simp

lemma length_run_select_reserved:
  assumes "1 \<le> l"
  shows "int (length (run_select cs ord (Some (l - 1)) t)) \<le> l - 1"
    and "1 + int (length (run_select cs ord (Some (l - 1)) t)) \<le> l"
    and "int (length (run_select cs ord (Some (l - 1)) t)) < l"
  using length_run_select_int [of "l - 1" cs ord t] assms by simp_all

section \<open>Totals, the own row and the peers of every mode\<close>










section \<open>Doubles, the choice under a limit, and the errors of a call\<close>









lemma length_tl_sort_rows: "length (tl (sort_rows opts rows (Some m))) = length rows"
  by (simp add: sort_rows_mine)





section \<open>The two sort directions\<close>

text \<open>
  Claim C1, as amended. The direction formatted into \<^verbatim>\<open>ORDER BY\<close> and the in-memory sort
  of \<open>sort_rows\<close> agree when the key \<^verbatim>\<open>filter\<close> is present: both are descending for 1
  and both ascending for 0. When the key is absent they differ: \<^verbatim>\<open>FILTERS.get(None, "")\<close>
  formats no direction, which the store reads as ascending, while \<^verbatim>\<open>data.get("filter", 1)\<close>
  makes the in-memory sort descending. The store's order is by the key of the statement,
  the score or the distance \<^verbatim>\<open>ABS(? - score)\<close>.
\<close>

theorem sort_directions:
  "(o_filter opts = Some 1 \<longrightarrow>
      sorted_wrt (\<ge>) (map (order_key t) (run_select cs (Some (t, filters_get opts)) lim table))
      \<and> sorted_wrt (\<ge>) (map score (tl (sort_rows opts rows (Some m)))))
   \<and> (o_filter opts = Some 0 \<longrightarrow>
      sorted_wrt (\<le>) (map (order_key t) (run_select cs (Some (t, filters_get opts)) lim table))
      \<and> sorted_wrt (\<le>) (map score (tl (sort_rows opts rows (Some m)))))
   \<and> (o_filter opts = None \<longrightarrow>
      sorted_wrt (\<le>) (map (order_key t) (run_select cs (Some (t, filters_get opts)) lim table))
      \<and> sorted_wrt (\<ge>) (map score (tl (sort_rows opts rows (Some m)))))"
proof (intro conjI impI)
  assume f: "o_filter opts = Some 1"
  then have "filters_get opts = ''DESC''"
    by (simp add: filters_get_def FILTERS_def)
  then show "sorted_wrt (\<ge>) (map (order_key t)
      (run_select cs (Some (t, filters_get opts)) lim table))"
    by (simp add: run_select_desc)
  from f show "sorted_wrt (\<ge>) (map score (tl (sort_rows opts rows (Some m))))"
    by (simp add: sort_rows_mine sorted_desc_sort_key)
next
  assume f: "o_filter opts = Some 0"
  then have "filters_get opts = ''ASC''"
    by (simp add: filters_get_def FILTERS_def)
  then show "sorted_wrt (\<le>) (map (order_key t)
      (run_select cs (Some (t, filters_get opts)) lim table))"
    by (simp add: run_select_asc)
  from f show "sorted_wrt (\<le>) (map score (tl (sort_rows opts rows (Some m))))"
    by (simp add: sort_rows_mine sorted_asc_sort_key)
next
  assume f: "o_filter opts = None"
  then have "filters_get opts = ''''"
    by (simp add: filters_get_def)
  then show "sorted_wrt (\<le>) (map (order_key t)
      (run_select cs (Some (t, filters_get opts)) lim table))"
    by (simp add: run_select_asc)
  from f show "sorted_wrt (\<ge>) (map score (tl (sort_rows opts rows (Some m))))"
    by (simp add: sort_rows_mine sorted_desc_sort_key)
qed

theorem sort_directions_witness:
  "o_filter (no_options\<lparr>o_filter := Some 1\<rparr>) = Some 1
   \<and> sorted_wrt (\<ge>) (map (order_key By_score)
        (run_select [] (Some (By_score, filters_get (no_options\<lparr>o_filter := Some 1\<rparr>))) None
           (ranking (demo_db 1000))))
   \<and> sorted_wrt (\<ge>) (map score
        (tl (sort_rows (no_options\<lparr>o_filter := Some 1\<rparr>) (ranking (demo_db 1000))
               (Some (demo_row 7 50 1000)))))
   \<and> o_filter (no_options\<lparr>o_filter := Some 0\<rparr>) = Some 0
   \<and> sorted_wrt (\<le>) (map (order_key By_score)
        (run_select [] (Some (By_score, filters_get (no_options\<lparr>o_filter := Some 0\<rparr>))) None
           (ranking (demo_db 1000))))
   \<and> sorted_wrt (\<le>) (map score
        (tl (sort_rows (no_options\<lparr>o_filter := Some 0\<rparr>) (ranking (demo_db 1000))
               (Some (demo_row 7 50 1000)))))
   \<and> o_filter no_options = None
   \<and> sorted_wrt (\<le>) (map (order_key By_score)
        (run_select [] (Some (By_score, filters_get no_options)) None (ranking (demo_db 1000))))
   \<and> sorted_wrt (\<ge>) (map score
        (tl (sort_rows no_options (ranking (demo_db 1000)) (Some (demo_row 7 50 1000)))))"
proof -
  have one: "o_filter (no_options\<lparr>o_filter := Some 1\<rparr>) = Some 1"
    and zero: "o_filter (no_options\<lparr>o_filter := Some 0\<rparr>) = Some 0"
    and absent: "o_filter no_options = None"
    by (simp_all add: no_options_def)
  note desc = sort_directions [where opts = "no_options\<lparr>o_filter := Some 1\<rparr>" and t = By_score
      and cs = "[]" and lim = None and table = "ranking (demo_db 1000)"
      and rows = "ranking (demo_db 1000)" and m = "demo_row 7 50 1000"]
  note asc = sort_directions [where opts = "no_options\<lparr>o_filter := Some 0\<rparr>" and t = By_score
      and cs = "[]" and lim = None and table = "ranking (demo_db 1000)"
      and rows = "ranking (demo_db 1000)" and m = "demo_row 7 50 1000"]
  note none = sort_directions [where opts = no_options and t = By_score
      and cs = "[]" and lim = None and table = "ranking (demo_db 1000)"
      and rows = "ranking (demo_db 1000)" and m = "demo_row 7 50 1000"]
  from desc asc none one zero absent show ?thesis by blast
qed

text \<open>
  The claim as stated fails when \<^verbatim>\<open>filter\<close> is absent. Mode 1 returns the rows in the
  order of the store, which is ascending: 30, 50, 80. Mode 4 for player 9 returns the
  peers as \<open>sort_rows\<close> orders them, which is descending: 80, 50.
\<close>

theorem sort_directions_counterexample:
  "o_filter no_options = None
   \<and> snd (snd (web_get2 (demo_db 1000) 2000 ''demo'' 7 1 0 1 no_options)) =
       Inr (3, [demo_row 9 30 1000, demo_row 7 50 1000, demo_row 8 80 1000])
   \<and> snd (snd (web_get2 (demo_db 1000) 2000 ''demo'' 9 1 0 4 no_options)) =
       Inr (2, [demo_row 9 30 1000, demo_row 8 80 1000, demo_row 7 50 1000])"
  by (simp add: engine_defs scenario_defs)

section \<open>Friends mode with no friends\<close>




section \<open>The time window\<close>

text \<open>
  Claim C3, as amended. For every mode 0..5 a row written strictly before the resolved
  cutoff is no peer row of the result (no row at all in the modes 0 and 1, no row after
  the first in the modes 2 to 5) and is not counted: the total is the number of rows
  that satisfy the clause of the count statement, the last statement executed, and
  each of them was written at the cutoff or later. The requester's own row, the first
  row in the modes 2 to 5, is looked up with no test on the time and is returned
  whatever its age.
\<close>

theorem time_window:
  assumes res: "snd (snd (web_get2 d now gn p rg c mode opts)) = Inr (tot, rows)"
      and since: "o_since (fst (web_get2 d now gn p rg c mode opts)) = Some since"
  shows "(\<forall>r \<in> set (if mode = 0 \<or> mode = 1 then rows else tl rows). since \<le> updated r)
       \<and> (\<exists>cs. last (executed (fst (snd (web_get2 d now gn p rg c mode opts)))) = Select_count cs
             \<and> tot = int (length (where_rows cs (ranking d)))
             \<and> (\<forall>r \<in> set (where_rows cs (ranking d)). since \<le> updated r))"
proof -
  from Inr_result_known_mode [OF res]
  consider "mode = 0" | "mode = 1" | "mode = 2" | "mode = 3" | "mode = 4" | "mode = 5"
    by blast
  then show ?thesis
  proof cases
    case 1
    with res since outcome_mode0 [OF _ since res] show ?thesis
      by (auto simp: run_count_def intro: run_select_fresh where_rows_fresh)
  next
    case 2
    with res since outcome_mode1 [OF _ since res] show ?thesis
      by (auto simp: run_count_def intro: run_select_fresh where_rows_fresh)
  next
    case 3
    with res since outcome_mode2 [OF _ since res] show ?thesis
      by (auto simp: run_count_def set_tl_sort_rows intro: run_select_fresh where_rows_fresh)
  next
    case 4
    with res since outcome_mode3 [OF _ since res] show ?thesis
      by (auto simp: run_count_def set_tl_sort_rows intro: run_select_fresh where_rows_fresh)
  next
    case 5
    with res since outcome_mode4 [OF _ since res] show ?thesis
      by (auto simp: run_count_def set_tl_sort_rows intro: run_select_fresh where_rows_fresh)
  next
    case 6
    with res since outcome_mode5 [OF _ since res] show ?thesis
      by (auto simp: run_count_def set_tl_sort_rows intro: run_select_fresh where_rows_fresh)
  qed
qed

theorem time_window_witness:
  "snd (snd (web_get2 aged_db 120000000 ''demo'' 7 1 0 2 (no_options\<lparr>o_updated := Some 1\<rparr>))) =
     Inr (1, [demo_row 7 50 0, demo_row 9 30 100000000])
   \<and> o_since (fst (web_get2 aged_db 120000000 ''demo'' 7 1 0 2
        (no_options\<lparr>o_updated := Some 1\<rparr>))) = Some 60000000
   \<and> 60000000 \<le> updated (demo_row 9 30 100000000)
   \<and> (\<exists>cs. last (executed (fst (snd (web_get2 aged_db 120000000 ''demo'' 7 1 0 2
          (no_options\<lparr>o_updated := Some 1\<rparr>))))) = Select_count cs
        \<and> (1::int) = int (length (where_rows cs (ranking aged_db))))"
proof -
  have res: "snd (snd (web_get2 aged_db 120000000 ''demo'' 7 1 0 2
      (no_options\<lparr>o_updated := Some 1\<rparr>))) = Inr (1, [demo_row 7 50 0, demo_row 9 30 100000000])"
    by (simp add: engine_defs scenario_defs)
  have since: "o_since (fst (web_get2 aged_db 120000000 ''demo'' 7 1 0 2
      (no_options\<lparr>o_updated := Some 1\<rparr>))) = Some 60000000"
    by (simp add: fst_web_get2 time_filter_def datetime_min_def datetime_max_def no_options_def)
  note window = time_window [OF res since]
  from window have peer: "60000000 \<le> updated (demo_row 9 30 100000000)"
    by simp
  from window obtain cs where
    "last (executed (fst (snd (web_get2 aged_db 120000000 ''demo'' 7 1 0 2
        (no_options\<lparr>o_updated := Some 1\<rparr>))))) = Select_count cs"
    "(1::int) = int (length (where_rows cs (ranking aged_db)))"
    by blast
  with res since peer show ?thesis by blast
qed

text \<open>
  The claim as stated fails for the requester's own row. Two minutes after the epoch,
  with a window of one minute, the cutoff is one minute after the epoch; player 7's
  row was written at the epoch and is the first row returned in mode 2.
\<close>

theorem time_window_counterexample:
  "snd (snd (web_get2 aged_db 120000000 ''demo'' 7 1 0 2 (no_options\<lparr>o_updated := Some 1\<rparr>))) =
     Inr (1, [demo_row 7 50 0, demo_row 9 30 100000000])
   \<and> o_since (fst (web_get2 aged_db 120000000 ''demo'' 7 1 0 2
        (no_options\<lparr>o_updated := Some 1\<rparr>))) = Some 60000000
   \<and> updated (demo_row 7 50 0) < 60000000"
  by (simp add: engine_defs scenario_defs)

section \<open>The nearby scenario\<close>

text \<open>
  Claim C4, as amended. In the scenario store, with every row written at the epoch or
  later, mode 2 for player 7 with the limit 3 takes the two peers from the store in
  the order of their distance from 50, player 9 (distance 20) before player 8
  (distance 30); \<open>sort_rows\<close> then sorts the peers by score, descending since
  \<^verbatim>\<open>filter\<close> is absent, and puts the requester first. The rows are those of the players
  7, 8, 9 in this order, and the total is 2.
\<close>

theorem nearby_scenario:
  assumes "0 \<le> u"
  shows "run_select [Gamename_eq ''demo'', Region_bitand 1, Category_eq 0, Pid_ne 7, Updated_ge 0]
           (Some (By_abs_diff 50, filters_get (no_options\<lparr>o_limit := Some 3\<rparr>)))
           (Some (get_limit (no_options\<lparr>o_limit := Some 3\<rparr>) - 1)) (ranking (demo_db u)) =
           [demo_row 9 30 u, demo_row 8 80 u]
    \<and> snd (snd (web_get2 (demo_db u) now ''demo'' 7 1 0 2 (no_options\<lparr>o_limit := Some 3\<rparr>))) =
        Inr (2, [demo_row 7 50 u, demo_row 8 80 u, demo_row 9 30 u])"
  using assms by (simp add: engine_defs scenario_defs)

theorem nearby_scenario_witness:
  "(0::int) \<le> 1000
   \<and> snd (snd (web_get2 (demo_db 1000) 2000 ''demo'' 7 1 0 2 (no_options\<lparr>o_limit := Some 3\<rparr>))) =
        Inr (2, [demo_row 7 50 1000, demo_row 8 80 1000, demo_row 9 30 1000])"
proof -
  have h: "(0::int) \<le> 1000" by simp
  from nearby_scenario [OF h, of 2000] h show ?thesis by blast
qed

text \<open>
  The claim as stated gives the rows of the players 7, 9, 8; the code returns 7, 8, 9.
\<close>

theorem nearby_scenario_counterexample:
  "snd (snd (web_get2 (demo_db 1000) 2000 ''demo'' 7 1 0 2 (no_options\<lparr>o_limit := Some 3\<rparr>))) =
     Inr (2, [demo_row 7 50 1000, demo_row 8 80 1000, demo_row 9 30 1000])
   \<and> [demo_row 7 50 1000, demo_row 8 80 1000, demo_row 9 30 1000] \<noteq>
       [demo_row 7 50 1000, demo_row 9 30 1000, demo_row 8 80 1000]"
  by (simp add: engine_defs scenario_defs)

section \<open>The limit\<close>

text \<open>
  Claim C5, as amended. Mode 1 returns at most \<^verbatim>\<open>limit\<close> rows (10 when the key is
  absent) for a limit that is not negative. Mode 0 applies the limit only when the key
  is present and not zero: it then returns at most \<^verbatim>\<open>limit\<close> rows for a positive
  limit, and with the key absent or 0 it returns every matching row, as many as the
  total. The modes 2 to 5 send \<^verbatim>\<open>limit - 1\<close> to the store as it is: for a limit of 1 or
  more (10 when absent) there are at most \<^verbatim>\<open>limit - 1\<close> peers and at most \<^verbatim>\<open>limit\<close>
  rows; for the limit 0 the store gets \<^verbatim>\<open>LIMIT -1\<close>, which is no bound, and the rows
  are the requester's row and every matching peer, one more than the total.
\<close>

theorem rows_within_limit:
  assumes res: "snd (snd (web_get2 d now gn p rg c mode opts)) = Inr (tot, rows)"
  shows "(mode = 1 \<and> 0 \<le> get_limit opts \<longrightarrow> int (length rows) \<le> get_limit opts)
       \<and> (mode = 0 \<and> 0 < get_limit opts \<and> o_limit opts \<noteq> None \<longrightarrow>
            int (length rows) \<le> get_limit opts)
       \<and> (mode = 0 \<and> (o_limit opts = None \<or> o_limit opts = Some 0) \<longrightarrow>
            int (length rows) = tot)
       \<and> (mode \<in> {2, 3, 4, 5} \<and> 1 \<le> get_limit opts \<longrightarrow>
            int (length (tl rows)) \<le> get_limit opts - 1 \<and> int (length rows) \<le> get_limit opts)
       \<and> (mode \<in> {2, 3, 4, 5} \<and> get_limit opts = 0 \<longrightarrow> int (length rows) = tot + 1)"
proof -
  obtain s where since: "o_since (fst (web_get2 d now gn p rg c mode opts)) = Some s"
    using since_of_result [OF res] by blast
  from res show ?thesis
  proof (cases rule: known_mode_cases)
    case 1
    with res since outcome_mode0 [OF _ since res] show ?thesis
      by (auto simp: get_limit_def length_run_select_none length_run_select_int)
  next
    case 2
    with res since outcome_mode1 [OF _ since res] show ?thesis
      by (auto simp: length_run_select_int)
  next
    case 3
    with res since outcome_mode2 [OF _ since res] show ?thesis
      by (auto simp: sort_rows_mine length_run_select_all length_run_select_reserved)
  next
    case 4
    with res since outcome_mode3 [OF _ since res] show ?thesis
      by (auto simp: sort_rows_mine length_run_select_all length_run_select_reserved)
  next
    case 5
    with res since outcome_mode4 [OF _ since res] show ?thesis
      by (auto simp: sort_rows_mine length_run_select_all length_run_select_reserved)
  next
    case 6
    with res since outcome_mode5 [OF _ since res] show ?thesis
      by (auto simp: sort_rows_mine length_run_select_all length_run_select_reserved)
  qed
qed

theorem rows_within_limit_witness:
  "snd (snd (web_get2 (demo_db 1000) 2000 ''demo'' 7 1 0 1
       (no_options\<lparr>o_limit := Some 2, o_filter := Some 1\<rparr>))) =
     Inr (3, [demo_row 8 80 1000, demo_row 7 50 1000])
   \<and> int (length [demo_row 8 80 1000, demo_row 7 50 1000]) \<le>
       get_limit (no_options\<lparr>o_limit := Some 2, o_filter := Some 1\<rparr>)
   \<and> snd (snd (web_get2 (demo_db 1000) 2000 ''demo'' 7 1 0 0 (no_options\<lparr>o_limit := Some 2\<rparr>))) =
       Inr (3, [demo_row 9 30 1000, demo_row 7 50 1000])
   \<and> int (length [demo_row 9 30 1000, demo_row 7 50 1000]) \<le>
       get_limit (no_options\<lparr>o_limit := Some 2\<rparr>)
   \<and> snd (snd (web_get2 crowd_db 2000 ''demo'' 7 1 0 0 no_options)) = Inr (11, ranking crowd_db)
   \<and> int (length (ranking crowd_db)) = 11
   \<and> snd (snd (web_get2 (demo_db 1000) 2000 ''demo'' 7 1 0 2 (no_options\<lparr>o_limit := Some 3\<rparr>))) =
       Inr (2, [demo_row 7 50 1000, demo_row 8 80 1000, demo_row 9 30 1000])
   \<and> int (length [demo_row 7 50 1000, demo_row 8 80 1000, demo_row 9 30 1000]) \<le>
       get_limit (no_options\<lparr>o_limit := Some 3\<rparr>)
   \<and> snd (snd (web_get2 (demo_db 1000) 2000 ''demo'' 7 1 0 2 (no_options\<lparr>o_limit := Some 0\<rparr>))) =
       Inr (2, [demo_row 7 50 1000, demo_row 8 80 1000, demo_row 9 30 1000])
   \<and> int (length [demo_row 7 50 1000, demo_row 8 80 1000, demo_row 9 30 1000]) = 2 + 1"
proof -
  have top: "snd (snd (web_get2 (demo_db 1000) 2000 ''demo'' 7 1 0 1
       (no_options\<lparr>o_limit := Some 2, o_filter := Some 1\<rparr>))) =
     Inr (3, [demo_row 8 80 1000, demo_row 7 50 1000])"
    by (simp add: engine_defs scenario_defs)
  have own: "snd (snd (web_get2 (demo_db 1000) 2000 ''demo'' 7 1 0 0
       (no_options\<lparr>o_limit := Some 2\<rparr>))) = Inr (3, [demo_row 9 30 1000, demo_row 7 50 1000])"
    by (simp add: engine_defs scenario_defs)
  have crowd: "snd (snd (web_get2 crowd_db 2000 ''demo'' 7 1 0 0 no_options)) =
      Inr (11, ranking crowd_db)"
    by (simp add: engine_defs scenario_defs)
  have near: "snd (snd (web_get2 (demo_db 1000) 2000 ''demo'' 7 1 0 2
       (no_options\<lparr>o_limit := Some 3\<rparr>))) =
     Inr (2, [demo_row 7 50 1000, demo_row 8 80 1000, demo_row 9 30 1000])"
    by (simp add: engine_defs scenario_defs)
  have zero: "snd (snd (web_get2 (demo_db 1000) 2000 ''demo'' 7 1 0 2
       (no_options\<lparr>o_limit := Some 0\<rparr>))) =
     Inr (2, [demo_row 7 50 1000, demo_row 8 80 1000, demo_row 9 30 1000])"
    by (simp add: engine_defs scenario_defs)
  have "int (length [demo_row 8 80 1000, demo_row 7 50 1000]) \<le>
       get_limit (no_options\<lparr>o_limit := Some 2, o_filter := Some 1\<rparr>)"
    using rows_within_limit [OF top] by (simp add: get_limit_def no_options_def)
  moreover have "int (length [demo_row 9 30 1000, demo_row 7 50 1000]) \<le>
       get_limit (no_options\<lparr>o_limit := Some 2\<rparr>)"
    using rows_within_limit [OF own] by (simp add: get_limit_def no_options_def)
  moreover have "int (length (ranking crowd_db)) = 11"
    using rows_within_limit [OF crowd] by (simp add: no_options_def)
  moreover have "int (length [demo_row 7 50 1000, demo_row 8 80 1000, demo_row 9 30 1000]) \<le>
       get_limit (no_options\<lparr>o_limit := Some 3\<rparr>)"
    using rows_within_limit [OF near] by (simp add: get_limit_def no_options_def)
  moreover have "int (length [demo_row 7 50 1000, demo_row 8 80 1000, demo_row 9 30 1000]) = 2 + 1"
    using rows_within_limit [OF zero] by (simp add: get_limit_def no_options_def)
  ultimately show ?thesis
    using top own crowd near zero by blast
qed

text \<open>
  The claim as stated fails twice. With the limit 0, mode 2 returns three rows, and the
  limit the peer statement carries is -1. With no limit, mode 0 returns the eleven
  rows of a store of eleven players, more than the default of 10.
\<close>

theorem rows_within_limit_counterexample:
  "snd (snd (web_get2 (demo_db 1000) 2000 ''demo'' 7 1 0 2 (no_options\<lparr>o_limit := Some 0\<rparr>))) =
     Inr (2, [demo_row 7 50 1000, demo_row 8 80 1000, demo_row 9 30 1000])
   \<and> \<not> length [demo_row 7 50 1000, demo_row 8 80 1000, demo_row 9 30 1000] \<le> 0
   \<and> Select_rows [Gamename_eq ''demo'', Region_bitand 1, Category_eq 0, Pid_ne 7, Updated_ge 0]
        (Some (By_abs_diff 50, '''')) (Some (- 1))
       \<in> set (executed (fst (snd (web_get2 (demo_db 1000) 2000 ''demo'' 7 1 0 2
                (no_options\<lparr>o_limit := Some 0\<rparr>)))))
   \<and> o_limit no_options = None
   \<and> snd (snd (web_get2 crowd_db 2000 ''demo'' 7 1 0 0 no_options)) = Inr (11, ranking crowd_db)
   \<and> \<not> length (ranking crowd_db) \<le> 10"
  by (simp add: engine_defs scenario_defs)

section \<open>The total\<close>



section \<open>The requester's own row\<close>



section \<open>The region test\<close>




section \<open>Mode dispatch and the options dictionary\<close>







end
